theory Spec2Isabelle
  imports Main
begin

section \<open>The implementors index published by the documentation script\<close>

text \<open>
  The script under verification is a single immediately-invoked function:
  \<^verbatim>\<open>
  (function() {var implementors = {};
  implementors["sentry_contrib_native"] = [ ...5 record literals... ];
  implementors["sentry_contrib_native_sys"] = [ ...8 record literals... ];
  if (window.register_implementors) {window.register_implementors(implementors);}
  else {window.pending_implementors = implementors;}})()
  \<close>
  Lines 1 to 3 build an object from literals; line 4 hands it to the documentation
  page, either by calling a global function or by storing it in a global property.
\<close>

subsection \<open>Records and the registry object\<close>

text \<open>
  Every element of the two array literals is an object with exactly the three properties
  \<^verbatim>\<open>text\<close>, \<^verbatim>\<open>synthetic\<close> and \<^verbatim>\<open>types\<close>.
\<close>

record implementor =
  "text" :: string
  synthetic :: bool
  types :: "string list"

text \<open>
  A JavaScript object with string keys enumerates them in insertion order, so the
  registry is an association list from module key to the array stored under it.
\<close>

type_synonym registry = "(string \<times> implementor list) list"

text \<open>
  The property assignment \<^verbatim>\<open>obj[k] = v\<close>: an existing key keeps its position and gets
  the new value, a new key is appended.
\<close>

fun assign :: "string \<Rightarrow> 'v \<Rightarrow> (string \<times> 'v) list \<Rightarrow> (string \<times> 'v) list" where
  "assign k v [] = [(k, v)]"
| "assign k v ((k', v') # kvs) =
     (if k' = k then (k', v) # kvs else (k', v') # assign k v kvs)"

text \<open>The array literal on line 2 of the script.\<close>

definition native_records :: "implementor list" where
  "native_records = [
    \<lparr>text = ''impl <a class=\"trait\" href=\"https://doc.rust-lang.org/nightly/core/marker/trait.Copy.html\" title=\"trait core::marker::Copy\">Copy</a> for <a class=\"struct\" href=\"sentry_contrib_native/struct.Uuid.html\" title=\"struct sentry_contrib_native::Uuid\">Uuid</a>'',
     synthetic = False,
     types = [''sentry_contrib_native::event::Uuid'']\<rparr>,
    \<lparr>text = ''impl <a class=\"trait\" href=\"https://doc.rust-lang.org/nightly/core/marker/trait.Copy.html\" title=\"trait core::marker::Copy\">Copy</a> for <a class=\"enum\" href=\"sentry_contrib_native/options/enum.Ownership.html\" title=\"enum sentry_contrib_native::options::Ownership\">Ownership</a>'',
     synthetic = False,
     types = [''sentry_contrib_native::options::Ownership'']\<rparr>,
    \<lparr>text = ''impl <a class=\"trait\" href=\"https://doc.rust-lang.org/nightly/core/marker/trait.Copy.html\" title=\"trait core::marker::Copy\">Copy</a> for <a class=\"enum\" href=\"sentry_contrib_native/enum.TransportShutdown.html\" title=\"enum sentry_contrib_native::TransportShutdown\">Shutdown</a>'',
     synthetic = False,
     types = [''sentry_contrib_native::transport::Shutdown'']\<rparr>,
    \<lparr>text = ''impl <a class=\"trait\" href=\"https://doc.rust-lang.org/nightly/core/marker/trait.Copy.html\" title=\"trait core::marker::Copy\">Copy</a> for <a class=\"enum\" href=\"sentry_contrib_native/enum.Level.html\" title=\"enum sentry_contrib_native::Level\">Level</a>'',
     synthetic = False,
     types = [''sentry_contrib_native::Level'']\<rparr>,
    \<lparr>text = ''impl <a class=\"trait\" href=\"https://doc.rust-lang.org/nightly/core/marker/trait.Copy.html\" title=\"trait core::marker::Copy\">Copy</a> for <a class=\"enum\" href=\"sentry_contrib_native/enum.Consent.html\" title=\"enum sentry_contrib_native::Consent\">Consent</a>'',
     synthetic = False,
     types = [''sentry_contrib_native::Consent'']\<rparr>]"

text \<open>The array literal on line 3 of the script.\<close>

definition sys_records :: "implementor list" where
  "sys_records = [
    \<lparr>text = ''impl <a class=\"trait\" href=\"https://doc.rust-lang.org/nightly/core/marker/trait.Copy.html\" title=\"trait core::marker::Copy\">Copy</a> for <a class=\"struct\" href=\"sentry_contrib_native_sys/struct.Options.html\" title=\"struct sentry_contrib_native_sys::Options\">Options</a>'',
     synthetic = False,
     types = [''sentry_contrib_native_sys::Options'']\<rparr>,
    \<lparr>text = ''impl <a class=\"trait\" href=\"https://doc.rust-lang.org/nightly/core/marker/trait.Copy.html\" title=\"trait core::marker::Copy\">Copy</a> for <a class=\"union\" href=\"sentry_contrib_native_sys/union.Value.html\" title=\"union sentry_contrib_native_sys::Value\">Value</a>'',
     synthetic = False,
     types = [''sentry_contrib_native_sys::Value'']\<rparr>,
    \<lparr>text = ''impl <a class=\"trait\" href=\"https://doc.rust-lang.org/nightly/core/marker/trait.Copy.html\" title=\"trait core::marker::Copy\">Copy</a> for <a class=\"struct\" href=\"sentry_contrib_native_sys/struct.Uuid.html\" title=\"struct sentry_contrib_native_sys::Uuid\">Uuid</a>'',
     synthetic = False,
     types = [''sentry_contrib_native_sys::Uuid'']\<rparr>,
    \<lparr>text = ''impl <a class=\"trait\" href=\"https://doc.rust-lang.org/nightly/core/marker/trait.Copy.html\" title=\"trait core::marker::Copy\">Copy</a> for <a class=\"enum\" href=\"sentry_contrib_native_sys/enum.Level.html\" title=\"enum sentry_contrib_native_sys::Level\">Level</a>'',
     synthetic = False,
     types = [''sentry_contrib_native_sys::Level'']\<rparr>,
    \<lparr>text = ''impl <a class=\"trait\" href=\"https://doc.rust-lang.org/nightly/core/marker/trait.Copy.html\" title=\"trait core::marker::Copy\">Copy</a> for <a class=\"enum\" href=\"sentry_contrib_native_sys/enum.ValueType.html\" title=\"enum sentry_contrib_native_sys::ValueType\">ValueType</a>'',
     synthetic = False,
     types = [''sentry_contrib_native_sys::ValueType'']\<rparr>,
    \<lparr>text = ''impl <a class=\"trait\" href=\"https://doc.rust-lang.org/nightly/core/marker/trait.Copy.html\" title=\"trait core::marker::Copy\">Copy</a> for <a class=\"enum\" href=\"sentry_contrib_native_sys/enum.UserConsent.html\" title=\"enum sentry_contrib_native_sys::UserConsent\">UserConsent</a>'',
     synthetic = False,
     types = [''sentry_contrib_native_sys::UserConsent'']\<rparr>,
    \<lparr>text = ''impl <a class=\"trait\" href=\"https://doc.rust-lang.org/nightly/core/marker/trait.Copy.html\" title=\"trait core::marker::Copy\">Copy</a> for <a class=\"struct\" href=\"sentry_contrib_native_sys/struct.Transport.html\" title=\"struct sentry_contrib_native_sys::Transport\">Transport</a>'',
     synthetic = False,
     types = [''sentry_contrib_native_sys::Transport'']\<rparr>,
    \<lparr>text = ''impl <a class=\"trait\" href=\"https://doc.rust-lang.org/nightly/core/marker/trait.Copy.html\" title=\"trait core::marker::Copy\">Copy</a> for <a class=\"struct\" href=\"sentry_contrib_native_sys/struct.Envelope.html\" title=\"struct sentry_contrib_native_sys::Envelope\">Envelope</a>'',
     synthetic = False,
     types = [''sentry_contrib_native_sys::Envelope'']\<rparr>]"

text \<open>
  The records have no property naming the trait. The trait is named inside \<^verbatim>\<open>text\<close>,
  by the \<^verbatim>\<open>title\<close> attribute of the anchor of class \<^verbatim>\<open>trait\<close>:
  \<^verbatim>\<open><a class="trait" href="..." title="trait core::marker::Copy">\<close>.
  \<open>trait_path\<close> reads it: the tag is cut at its closing \<^verbatim>\<open>>\<close>, the attribute value at
  its closing quote.
\<close>

fun strip_prefix :: "string \<Rightarrow> string \<Rightarrow> string option" where
  "strip_prefix [] s = Some s"
| "strip_prefix (p # ps) [] = None"
| "strip_prefix (p # ps) (c # cs) = (if p = c then strip_prefix ps cs else None)"

fun find_after :: "string \<Rightarrow> string \<Rightarrow> string option" where
  "find_after p [] = strip_prefix p []"
| "find_after p (c # cs) =
     (case strip_prefix p (c # cs) of Some r \<Rightarrow> Some r | None \<Rightarrow> find_after p cs)"

definition trait_path :: "implementor \<Rightarrow> string option" where
  "trait_path r =
     (case find_after ''<a class=\"trait\" '' (text r) of
        None \<Rightarrow> None
      | Some a \<Rightarrow>
          (case find_after ''title=\"trait '' (takeWhile (\<lambda>c. c \<noteq> CHR ''>'') a) of
             None \<Rightarrow> None
           | Some t \<Rightarrow> Some (takeWhile (\<lambda>c. c \<noteq> CHR 0x22) t)))"

subsection \<open>The global object and the state of the script\<close>

text \<open>
  \<^verbatim>\<open>window.pending_implementors\<close> may be missing before the script runs, or hold any
  value \<open>'p\<close> of the page's own.
\<close>

datatype 'p slot = Absent | Foreign 'p | Registry registry

text \<open>
  An exception that leaves the script: the \<^verbatim>\<open>TypeError\<close> of a call that cannot be made,
  or whatever a called function throws, a \<^verbatim>\<open>TypeError\<close> of its own or, as \<open>Thrown\<close>,
  any other value.
\<close>

datatype error = TypeError | Thrown

text \<open>
  The script makes two observations of \<^verbatim>\<open>window.register_implementors\<close>: the
  \<^verbatim>\<open>if\<close> converts it to a boolean, and line 4 then calls it, with no \<^verbatim>\<open>try\<close> around
  the call. A JavaScript value is abstracted to what these observations see:
  \<^item> \<open>Falsy\<close>: a missing property, and every other falsy value;
  \<^item> \<open>NonCallable\<close>: a truthy value that is not a function; calling it raises a
    \<^verbatim>\<open>TypeError\<close>;
  \<^item> \<open>ClassConstructor\<close>: a class; it is a function and truthy, but calling it without
    \<^verbatim>\<open>new\<close> raises a \<^verbatim>\<open>TypeError\<close> before any of its code runs;
  \<^item> \<open>Callable f\<close>: any other function. Its body is foreign code. It is given the
    registry object itself, not a copy, and can reach the global object, so \<open>f\<close> acts on
    the contents of the registry object, the pending slot and the rest of the page's
    state, of type \<open>'h\<close>; it ends by returning (\<open>None\<close>) or by throwing (\<open>Some e\<close>),
    and what it changed before throwing stays changed. The script reads
    \<^verbatim>\<open>window.register_implementors\<close> for the test and the call only, so a function
    that replaces it makes no difference to the run.
\<close>

type_synonym ('h, 'p) reach = "registry \<times> 'p slot \<times> 'h"

datatype ('h, 'p) handle =
  Falsy
| NonCallable
| ClassConstructor
| Callable "('h, 'p) reach \<Rightarrow> error option \<times> ('h, 'p) reach"

record ('h, 'p) window =
  register_implementors :: "('h, 'p) handle"
  pending_implementors :: "'p slot"
  host :: 'h

text \<open>
  What happens at line 4 is logged: a function entered with its argument as it was at the
  call, or a write of the pending property by the script with the value written.
\<close>

datatype event = Invoked registry | Stored registry

text \<open>
  The state is the object the local variable \<^verbatim>\<open>implementors\<close> refers to, the global
  object and the log.
\<close>

record ('h, 'p) state =
  implementors :: registry
  window :: "('h, 'p) window"
  trace :: "event list"

subsection \<open>The statements of the script\<close>

text \<open>Lines 1 to 3: \<^verbatim>\<open>var implementors = {}\<close> and the two property assignments.\<close>

definition build :: "('h, 'p) state \<Rightarrow> ('h, 'p) state" where
  "build s =
     (let s1 = s\<lparr>implementors := []\<rparr>;
          s2 = s1\<lparr>implementors :=
                 assign ''sentry_contrib_native'' native_records (implementors s1)\<rparr>;
          s3 = s2\<lparr>implementors :=
                 assign ''sentry_contrib_native_sys'' sys_records (implementors s2)\<rparr>
      in s3)"

text \<open>
  Line 4: the \<^verbatim>\<open>if\<close> on \<^verbatim>\<open>window.register_implementors\<close>. The call branch is taken
  for every truthy value. An exception ends the script there: the result is then \<open>Inl\<close>,
  with the exception and the state it left.
\<close>

definition publish :: "('h, 'p) state \<Rightarrow> (error \<times> ('h, 'p) state) + ('h, 'p) state" where
  "publish s =
     (case register_implementors (window s) of
        Callable f \<Rightarrow>
          (case f (implementors s, pending_implementors (window s), host (window s)) of
             (thrown, r, p, h) \<Rightarrow>
               (let s' = s\<lparr>implementors := r,
                            window := (window s)\<lparr>pending_implementors := p, host := h\<rparr>,
                            trace := trace s @ [Invoked (implementors s)]\<rparr>
                in case thrown of None \<Rightarrow> Inr s' | Some e \<Rightarrow> Inl (e, s')))
      | ClassConstructor \<Rightarrow> Inl (TypeError, s)
      | NonCallable \<Rightarrow> Inl (TypeError, s)
      | Falsy \<Rightarrow>
          Inr (s\<lparr>window := (window s)\<lparr>pending_implementors := Registry (implementors s)\<rparr>,
                 trace := trace s @ [Stored (implementors s)]\<rparr>))"

text \<open>The whole function body, run once by the trailing \<^verbatim>\<open>()\<close>.\<close>

definition script :: "('h, 'p) state \<Rightarrow> (error \<times> ('h, 'p) state) + ('h, 'p) state" where
  "script s = publish (build s)"

text \<open>The state the script leaves, however it ends.\<close>

fun state_after :: "(error \<times> ('h, 'p) state) + ('h, 'p) state \<Rightarrow> ('h, 'p) state" where
  "state_after (Inl (e, a)) = a"
| "state_after (Inr s') = s'"

subsection \<open>The script statement by statement\<close>

text \<open>
  The program counter names the source line about to run; \<open>Done\<close> is the end of the
  function body. An exception ends the run in \<open>Aborted\<close>, which keeps the state it left.
\<close>

datatype pc = Line1 | Line2 | Line3 | Line4 | Done

datatype ('h, 'p) config = Running pc "('h, 'p) state" | Aborted error "('h, 'p) state"

inductive step :: "('h, 'p) config \<Rightarrow> ('h, 'p) config \<Rightarrow> bool" where
  line1: "step (Running Line1 s) (Running Line2 (s\<lparr>implementors := []\<rparr>))"
| line2: "step (Running Line2 s)
            (Running Line3 (s\<lparr>implementors :=
               assign ''sentry_contrib_native'' native_records (implementors s)\<rparr>))"
| line3: "step (Running Line3 s)
            (Running Line4 (s\<lparr>implementors :=
               assign ''sentry_contrib_native_sys'' sys_records (implementors s)\<rparr>))"
| line4_ok: "publish s = Inr s' \<Longrightarrow> step (Running Line4 s) (Running Done s')"
| line4_throw: "publish s = Inl (e, a) \<Longrightarrow> step (Running Line4 s) (Aborted e a)"





text \<open>
  A consumer that keeps a log as the page's state and appends to it every record of the
  registry it receives, key by key in the order of the keys. It returns, and changes
  neither the registry nor the pending slot.
\<close>

definition log_consumer ::
  "(implementor list, 'p) reach \<Rightarrow> error option \<times> (implementor list, 'p) reach" where
  "log_consumer = (\<lambda>(reg, p, log). (None, (reg, p, log @ concat (map snd reg))))"

text \<open>
  A state in which the script has not run yet: nothing is logged, and the local variable,
  which line 1 overwrites before anything reads it, is shown empty.
\<close>

definition initial :: "('h, 'p) handle \<Rightarrow> 'p slot \<Rightarrow> 'h \<Rightarrow> ('h, 'p) state" where
  "initial h p x =
     \<lparr>implementors = [],
      window = \<lparr>register_implementors = h, pending_implementors = p, host = x\<rparr>,
      trace = []\<rparr>"

text \<open>A run has ended when the function body is through or an exception left it.\<close>

fun finished :: "('h, 'p) config \<Rightarrow> bool" where
  "finished (Running Done s) = True"
| "finished (Running l s) = False"
| "finished (Aborted e s) = True"

fun state_of :: "('h, 'p) config \<Rightarrow> ('h, 'p) state" where
  "state_of (Running l s) = s"
| "state_of (Aborted e s) = s"

text \<open>The result of \<open>script\<close> as a configuration of the statement-wise semantics.\<close>

definition outcome :: "('h, 'p) state \<Rightarrow> ('h, 'p) config" where
  "outcome s = (case script s of Inr s' \<Rightarrow> Running Done s' | Inl (e, a) \<Rightarrow> Aborted e a)"

section \<open>Properties of the built registry\<close>

lemma length_native_records: "length native_records = 5"
  by (simp add: native_records_def)

lemma length_sys_records: "length sys_records = 8"
  by (simp add: sys_records_def)

lemma implementors_build:
  "implementors (build s) =
     [(''sentry_contrib_native'', native_records), (''sentry_contrib_native_sys'', sys_records)]"
  by (simp add: build_def Let_def)

lemma set_implementors_build:
  "set (implementors (build s)) =
     {(''sentry_contrib_native'', native_records), (''sentry_contrib_native_sys'', sys_records)}"
  by (simp only: implementors_build list.set)

lemma window_build: "window (build s) = window s"
  by (simp add: build_def Let_def)

lemma trace_build: "trace (build s) = trace s"
  by (simp add: build_def Let_def)

lemma window_initial:
  "window (initial h p x) =
     \<lparr>register_implementors = h, pending_implementors = p, host = x\<rparr>"
  by (simp add: initial_def)

lemma trace_initial: "trace (initial h p x) = []"
  by (simp add: initial_def)

lemma native_shape:
  "list_all (\<lambda>r. synthetic r = False \<and> trait_path r = Some ''core::marker::Copy'')
     native_records"
  by code_simp

lemma sys_shape:
  "list_all (\<lambda>r. synthetic r = False \<and> trait_path r = Some ''core::marker::Copy'')
     sys_records"
  by code_simp

lemma native_types_distinct: "distinct (map types native_records)"
  by (simp add: native_records_def)

lemma sys_types_distinct: "distinct (map types sys_records)"
  by (simp add: sys_records_def)

text \<open>
  Claim C6. In the registry that lines 1 to 3 build, every module key maps to a non-empty
  sequence of records.
\<close>

theorem registry_sequences_nonempty:
  "\<forall>(k, rs) \<in> set (implementors (build s)). rs \<noteq> []"
proof -
  have "native_records \<noteq> []" using length_native_records by auto
  moreover have "sys_records \<noteq> []" using length_sys_records by auto
  ultimately show ?thesis by (simp only: set_implementors_build) simp
qed

text \<open>The entry of \<^verbatim>\<open>sentry_contrib_native\<close> is in the registry and is not empty.\<close>

theorem registry_sequences_nonempty_witness:
  "(''sentry_contrib_native'', native_records)
     \<in> set (implementors (build (initial Falsy Absent () :: (unit, unit) state)))
   \<and> native_records \<noteq> []"
proof -
  let ?s = "initial Falsy Absent () :: (unit, unit) state"
  have m: "(''sentry_contrib_native'', native_records) \<in> set (implementors (build ?s))"
    by (simp only: set_implementors_build insertI1)
  with registry_sequences_nonempty [of ?s] show ?thesis by blast
qed

text \<open>
  Claim C7. Within one module key, two records at different positions that name the same
  trait never have the same \<^verbatim>\<open>types\<close> value: no type is registered twice for a trait.
\<close>

theorem no_duplicate_registration:
  "\<forall>(k, rs) \<in> set (implementors (build s)). \<forall>i < length rs. \<forall>j < length rs.
     i \<noteq> j \<and> trait_path (rs ! i) = trait_path (rs ! j) \<longrightarrow> types (rs ! i) \<noteq> types (rs ! j)"
proof -
  have d: "distinct (map types rs) \<Longrightarrow> i < length rs \<Longrightarrow> j < length rs \<Longrightarrow> i \<noteq> j
      \<Longrightarrow> types (rs ! i) \<noteq> types (rs ! j)" for rs :: "implementor list" and i j
    using nth_eq_iff_index_eq [of "map types rs" i j] by simp
  show ?thesis
    using d [OF native_types_distinct] d [OF sys_types_distinct]
    by (simp only: set_implementors_build) simp
qed

text \<open>
  The first two records of \<^verbatim>\<open>sentry_contrib_native\<close> name the same trait and differ in
  their types.
\<close>

theorem no_duplicate_registration_witness:
  "(''sentry_contrib_native'', native_records)
     \<in> set (implementors (build (initial Falsy Absent () :: (unit, unit) state)))
   \<and> 0 < length native_records \<and> 1 < length native_records \<and> (0::nat) \<noteq> 1
   \<and> trait_path (native_records ! 0) = trait_path (native_records ! 1)
   \<and> types (native_records ! 0) \<noteq> types (native_records ! 1)"
proof -
  let ?s = "initial Falsy Absent () :: (unit, unit) state"
  have m: "(''sentry_contrib_native'', native_records) \<in> set (implementors (build ?s))"
    by (simp only: set_implementors_build insertI1)
  have l: "0 < length native_records" "1 < length native_records"
    by (simp_all add: length_native_records)
  have t: "trait_path (native_records ! 0) = trait_path (native_records ! 1)"
    by code_simp
  from no_duplicate_registration [of ?s] m
  have "\<forall>i < length native_records. \<forall>j < length native_records.
     i \<noteq> j \<and> trait_path (native_records ! i) = trait_path (native_records ! j)
       \<longrightarrow> types (native_records ! i) \<noteq> types (native_records ! j)"
    by blast
  with l t have "types (native_records ! 0) \<noteq> types (native_records ! 1)" by simp
  with m l t show ?thesis by simp
qed

text \<open>
  Claim C9. Every record of the built registry has \<^verbatim>\<open>synthetic\<close> false and names the one
  trait \<^verbatim>\<open>core::marker::Copy\<close>.
\<close>

theorem uniform_shape:
  "\<forall>(k, rs) \<in> set (implementors (build s)). \<forall>r \<in> set rs.
     synthetic r = False \<and> trait_path r = Some ''core::marker::Copy''"
  using native_shape sys_shape
  by (simp only: set_implementors_build list_all_iff) simp

text \<open>The last record of \<^verbatim>\<open>sentry_contrib_native_sys\<close> has this shape.\<close>

theorem uniform_shape_witness:
  "(''sentry_contrib_native_sys'', sys_records)
     \<in> set (implementors (build (initial Falsy Absent () :: (unit, unit) state)))
   \<and> sys_records ! 7 \<in> set sys_records
   \<and> synthetic (sys_records ! 7) = False
   \<and> trait_path (sys_records ! 7) = Some ''core::marker::Copy''"
proof -
  let ?s = "initial Falsy Absent () :: (unit, unit) state"
  have m: "(''sentry_contrib_native_sys'', sys_records) \<in> set (implementors (build ?s))"
    by (simp only: set_implementors_build) simp
  have r: "sys_records ! 7 \<in> set sys_records"
    by (simp add: length_sys_records)
  from uniform_shape [of ?s] m r show ?thesis by blast
qed

text \<open>
  Claim C4. Building is a function of the literals alone: any two builds, from whatever
  states, give equal registries, and building again changes nothing.
\<close>

theorem build_idempotent:
  "implementors (build s) = implementors (build t) \<and> build (build s) = build s"
  by (simp add: build_def Let_def)

section \<open>Running the script\<close>

subsection \<open>The statement-wise semantics\<close>

inductive_cases step_Line1E: "step (Running Line1 s) c"
inductive_cases step_Line2E: "step (Running Line2 s) c"
inductive_cases step_Line3E: "step (Running Line3 s) c"
inductive_cases step_Line4E: "step (Running Line4 s) c"

text \<open>Lines 1 to 3 take the run from its start to line 4, in the state \<open>build\<close> computes.\<close>

lemma build_steps: "rtranclp step (Running Line1 s) (Running Line4 (build s))"
proof -
  let ?s1 = "s\<lparr>implementors := []\<rparr>"
  let ?s2 = "?s1\<lparr>implementors :=
               assign ''sentry_contrib_native'' native_records (implementors ?s1)\<rparr>"
  let ?s3 = "?s2\<lparr>implementors :=
               assign ''sentry_contrib_native_sys'' sys_records (implementors ?s2)\<rparr>"
  have 1: "step (Running Line1 s) (Running Line2 ?s1)" by (rule line1)
  have 2: "step (Running Line2 ?s1) (Running Line3 ?s2)" by (rule line2)
  have 3: "step (Running Line3 ?s2) (Running Line4 ?s3)" by (rule line3)
  have "build s = ?s3" unfolding build_def Let_def ..
  with 1 2 3 show ?thesis
    by (simp only: rtranclp.rtrancl_into_rtrancl [OF rtranclp.rtrancl_into_rtrancl [OF r_into_rtranclp]])
qed

text \<open>Every configuration has at most one successor.\<close>

lemma step_deterministic:
  assumes "step c c1" and "step c c2"
  shows "c1 = c2"
  using assms
proof (cases rule: step.cases)
  case (line1 s)
  with assms(2) show ?thesis by (auto elim: step_Line1E)
next
  case (line2 s)
  with assms(2) show ?thesis by (auto elim: step_Line2E)
next
  case (line3 s)
  with assms(2) show ?thesis by (auto elim: step_Line3E)
next
  case (line4_ok s s')
  with assms(2) show ?thesis by (auto elim: step_Line4E)
next
  case (line4_throw s e)
  with assms(2) show ?thesis by (auto elim: step_Line4E)
qed

lemma finished_no_step: "finished c \<Longrightarrow> \<not> step c c'"
proof
  assume f: "finished c" and st: "step c c'"
  from st f show False by (cases rule: step.cases) simp_all
qed

lemma publish_steps: "step (Running Line4 (build s)) (outcome s)"
proof (cases "publish (build s)")
  case (Inl x)
  then show ?thesis by (cases x) (simp add: outcome_def script_def line4_throw)
next
  case (Inr s')
  then show ?thesis by (simp add: outcome_def script_def line4_ok)
qed

lemma script_steps: "rtranclp step (Running Line1 s) (outcome s)"
  using build_steps [of s] publish_steps [of s] by (rule rtranclp.rtrancl_into_rtrancl)

lemma finished_outcome: "finished (outcome s)"
  by (simp add: outcome_def split: sum.splits prod.splits)

text \<open>
  A run that has ended lies ahead of every configuration reachable from the same start, so
  a start has one end only.
\<close>

lemma steps_to_finished:
  assumes "rtranclp step c c1" and "finished c1" and "rtranclp step c c2"
  shows "rtranclp step c2 c1"
  using assms(1,3,2)
proof (induction rule: converse_rtranclp_induct)
  case base
  from base(1) show ?case
  proof (cases rule: converse_rtranclpE)
    case base
    then show ?thesis by simp
  next
    case (step y)
    with \<open>finished c1\<close> finished_no_step show ?thesis by blast
  qed
next
  case (step x y)
  from step.prems(1) show ?case
  proof (cases rule: converse_rtranclpE)
    case base
    with step.hyps show ?thesis by (simp add: converse_rtranclp_into_rtranclp)
  next
    case (step y')
    with step.hyps(1) have "y' = y" by (simp add: step_deterministic)
    with step step.IH step.prems(2) show ?thesis by simp
  qed
qed

lemma finished_unique:
  assumes "rtranclp step c c1" and "finished c1" and "rtranclp step c c2" and "finished c2"
  shows "c1 = c2"
proof -
  from steps_to_finished [OF assms(1,2,3)] show ?thesis
  proof (cases rule: converse_rtranclpE)
    case base
    then show ?thesis by simp
  next
    case (step y)
    with assms(4) finished_no_step show ?thesis by blast
  qed
qed

subsection \<open>The cases of line 4\<close>

lemma script_Falsy:
  assumes "register_implementors (window s) = Falsy"
  shows "script s =
    Inr (build s\<lparr>window := (window s)\<lparr>pending_implementors := Registry (implementors (build s))\<rparr>,
                 trace := trace s @ [Stored (implementors (build s))]\<rparr>)"
  using assms by (simp add: script_def publish_def window_build trace_build)

lemma script_NonCallable:
  assumes "register_implementors (window s) = NonCallable"
  shows "script s = Inl (TypeError, build s)"
  using assms by (simp add: script_def publish_def window_build)

lemma script_ClassConstructor:
  assumes "register_implementors (window s) = ClassConstructor"
  shows "script s = Inl (TypeError, build s)"
  using assms by (simp add: script_def publish_def window_build)

lemma state_after_Callable:
  assumes "register_implementors (window s) = Callable f"
    and "f (implementors (build s), pending_implementors (window s), host (window s))
           = (thrown, r, p, h)"
  shows "state_after (script s) =
    build s\<lparr>implementors := r,
            window := (window s)\<lparr>pending_implementors := p, host := h\<rparr>,
            trace := trace s @ [Invoked (implementors (build s))]\<rparr>"
  using assms
  by (simp add: script_def publish_def window_build trace_build Let_def split: option.splits)

lemma script_Callable:
  assumes "register_implementors (window s) = Callable f"
    and "f (implementors (build s), pending_implementors (window s), host (window s))
           = (thrown, r, p, h)"
  shows "script s =
    (case thrown of None \<Rightarrow> Inr (state_after (script s))
                  | Some e \<Rightarrow> Inl (e, state_after (script s)))"
  using assms
  by (simp add: script_def publish_def window_build trace_build Let_def split: option.splits)


lemma trace_state_after:
  "\<exists>evs. trace (state_after (script s)) = trace s @ evs \<and> length evs \<le> 1"
proof (cases "register_implementors (window s)")
  case Falsy
  then show ?thesis by (simp add: script_Falsy)
next
  case NonCallable
  then show ?thesis by (simp add: script_NonCallable trace_build)
next
  case ClassConstructor
  then show ?thesis by (simp add: script_ClassConstructor trace_build)
next
  case (Callable f)
  obtain thrown r p h
    where f: "f (implementors (build s), pending_implementors (window s), host (window s))
                = (thrown, r, p, h)"
    by (cases "f (implementors (build s), pending_implementors (window s), host (window s))")
  show ?thesis by (simp add: state_after_Callable [OF Callable f])
qed

subsection \<open>Runs and the lifecycle\<close>








section \<open>Building\<close>

text \<open>
  Claim C5. Building cannot fail and has no effect besides the registry it leaves in the
  local variable: the global object and the log are as before, the run always gets from
  line 1 to line 4, and none of lines 1 to 3 can raise.
\<close>

theorem build_infallible:
  "window (build s) = window s \<and> trace (build s) = trace s
   \<and> rtranclp step (Running Line1 s) (Running Line4 (build s))
   \<and> \<not> step (Running Line1 s) (Aborted e a)
   \<and> \<not> step (Running Line2 s) (Aborted e a)
   \<and> \<not> step (Running Line3 s) (Aborted e a)"
  using build_steps [of s]
  by (auto simp: window_build trace_build elim: step_Line1E step_Line2E step_Line3E)

text \<open>Building on a page that has a consumer and a value of its own in the pending slot.\<close>

theorem build_infallible_witness:
  "window (build (initial (Callable log_consumer) (Foreign ()) []))
     = \<lparr>register_implementors = Callable log_consumer, pending_implementors = Foreign (),
        host = []\<rparr>
   \<and> trace (build (initial (Callable log_consumer) (Foreign ()) [])) = []
   \<and> rtranclp step (Running Line1 (initial (Callable log_consumer) (Foreign ()) []))
        (Running Line4 (build (initial (Callable log_consumer) (Foreign ()) [])))"
  using build_infallible [of "initial (Callable log_consumer) (Foreign ()) []"]
  by (simp add: window_initial trace_initial)

section \<open>Publishing\<close>

text \<open>
  Claim C1, amended. In every global state the script takes exactly one of the two paths
  of line 4, never both. When \<^verbatim>\<open>window.register_implementors\<close> is falsy, the script
  stores exactly the built registry in the pending slot and calls nothing. When it is an
  ordinary function, that function is entered exactly once, with the built registry; the
  script itself does not write the pending slot, which then holds what the function left
  there, as do the registry object and the page; the script returns if the function
  returns, and ends with the function's exception if it throws. When it is truthy and not
  a function, or is a class
  constructor, the call raises a \<^verbatim>\<open>TypeError\<close>: nothing is entered and nothing is
  written.
\<close>

theorem publish_exclusive:
  "(register_implementors (window s) = Falsy \<longrightarrow>
      (\<exists>s'. script s = Inr s'
         \<and> trace s' = trace s @ [Stored (implementors (build s))]
         \<and> pending_implementors (window s') = Registry (implementors (build s))
         \<and> host (window s') = host (window s)))
   \<and> (register_implementors (window s) = Callable f \<longrightarrow>
        trace (state_after (script s)) = trace s @ [Invoked (implementors (build s))]
        \<and> (implementors (state_after (script s)),
            pending_implementors (window (state_after (script s))),
            host (window (state_after (script s))))
           = snd (f (implementors (build s), pending_implementors (window s), host (window s)))
        \<and> script s =
            (case fst (f (implementors (build s), pending_implementors (window s),
                          host (window s))) of
               None \<Rightarrow> Inr (state_after (script s))
             | Some e \<Rightarrow> Inl (e, state_after (script s))))
   \<and> (register_implementors (window s) = NonCallable
        \<or> register_implementors (window s) = ClassConstructor \<longrightarrow>
        script s = Inl (TypeError, build s)
        \<and> trace (build s) = trace s \<and> window (build s) = window s)
   \<and> (\<exists>evs. trace (state_after (script s)) = trace s @ evs \<and> length evs \<le> 1)"
proof (intro conjI impI)
  assume "register_implementors (window s) = Falsy"
  then show "\<exists>s'. script s = Inr s'
         \<and> trace s' = trace s @ [Stored (implementors (build s))]
         \<and> pending_implementors (window s') = Registry (implementors (build s))
         \<and> host (window s') = host (window s)"
    by (simp add: script_Falsy)
next
  assume c: "register_implementors (window s) = Callable f"
  obtain thrown r p h
    where f: "f (implementors (build s), pending_implementors (window s), host (window s))
                = (thrown, r, p, h)"
    by (cases "f (implementors (build s), pending_implementors (window s), host (window s))")
  show "trace (state_after (script s)) = trace s @ [Invoked (implementors (build s))]"
    by (simp add: state_after_Callable [OF c f])
  show "(implementors (state_after (script s)),
            pending_implementors (window (state_after (script s))),
            host (window (state_after (script s))))
           = snd (f (implementors (build s), pending_implementors (window s), host (window s)))"
    by (simp add: state_after_Callable [OF c f] f)
  from script_Callable [OF c f]
  show "script s =
            (case fst (f (implementors (build s), pending_implementors (window s),
                          host (window s))) of
               None \<Rightarrow> Inr (state_after (script s))
             | Some e \<Rightarrow> Inl (e, state_after (script s)))"
    by (simp only: f fst_conv)
next
  assume "register_implementors (window s) = NonCallable
        \<or> register_implementors (window s) = ClassConstructor"
  then show "script s = Inl (TypeError, build s)"
    using script_NonCallable script_ClassConstructor by blast
next
  show "trace (build s) = trace s" by (rule trace_build)
next
  show "window (build s) = window s" by (rule window_build)
next
  show "\<exists>evs. trace (state_after (script s)) = trace s @ evs \<and> length evs \<le> 1"
    by (rule trace_state_after)
qed

text \<open>
  One page for each case, each with a value of its own in the slot: no consumer, the
  logging consumer, a consumer that throws, a number, a class.
\<close>

theorem publish_exclusive_witness:
  "(\<exists>s'. script (initial Falsy (Foreign ()) ()) = Inr s'
         \<and> trace s' = [Stored (implementors (build (initial Falsy (Foreign ()) ())))]
         \<and> pending_implementors (window s')
             = Registry (implementors (build (initial Falsy (Foreign ()) ())))
         \<and> host (window s') = ())
   \<and> trace (state_after (script (initial (Callable log_consumer) (Foreign ()) [])))
       = [Invoked (implementors (build (initial (Callable log_consumer) (Foreign ()) [])))]
   \<and> host (window (state_after (script (initial (Callable log_consumer) (Foreign ()) []))))
       = native_records @ sys_records
   \<and> pending_implementors
        (window (state_after (script (initial (Callable log_consumer) (Foreign ()) []))))
       = Foreign ()
   \<and> script (initial (Callable (\<lambda>x. (Some Thrown, x))) (Foreign ()) ())
       = Inl (Thrown,
           state_after (script (initial (Callable (\<lambda>x. (Some Thrown, x))) (Foreign ()) ())))
   \<and> script (initial NonCallable (Foreign ()) ())
       = Inl (TypeError, build (initial NonCallable (Foreign ()) ()))
   \<and> script (initial ClassConstructor (Foreign ()) ())
       = Inl (TypeError, build (initial ClassConstructor (Foreign ()) ()))"
  using publish_exclusive [of "initial Falsy (Foreign ()) ()"]
    publish_exclusive [of "initial (Callable log_consumer) (Foreign ()) []" log_consumer]
    publish_exclusive [of "initial (Callable (\<lambda>x. (Some Thrown, x))) (Foreign ()) ()"
      "\<lambda>x. (Some Thrown, x)"]
    publish_exclusive [of "initial NonCallable (Foreign ()) ()"]
    publish_exclusive [of "initial ClassConstructor (Foreign ()) ()"]
  by (simp add: window_initial trace_initial log_consumer_def implementors_build)

text \<open>
  Claim C1 as stated fails in three global states. Where
  \<^verbatim>\<open>window.register_implementors\<close> is truthy and not a function, and where it is a
  class, the script ends with a \<^verbatim>\<open>TypeError\<close>: nothing was entered or stored, and the
  pending slot is still missing. Where it is a function that writes the pending slot,
  the function is entered and the slot is written all the same.
\<close>

theorem publish_exclusive_counterexample:
  "script (initial NonCallable Absent ())
     = Inl (TypeError, build (initial NonCallable Absent () :: (unit, unit) state))
   \<and> rtranclp step (Running Line1 (initial NonCallable Absent ()))
        (Aborted TypeError (build (initial NonCallable Absent () :: (unit, unit) state)))
   \<and> trace (build (initial NonCallable Absent () :: (unit, unit) state)) = []
   \<and> pending_implementors (window (build (initial NonCallable Absent () :: (unit, unit) state)))
       = Absent
   \<and> script (initial ClassConstructor Absent ())
       = Inl (TypeError, build (initial ClassConstructor Absent () :: (unit, unit) state))
   \<and> trace (build (initial ClassConstructor Absent () :: (unit, unit) state)) = []
   \<and> trace (state_after (script
        (initial (Callable (\<lambda>(r, p, h). (None, r, Foreign True, h))) Absent (0::nat))))
       = [Invoked (implementors (build
           (initial (Callable (\<lambda>(r, p, h). (None, r, Foreign True, h))) Absent (0::nat))))]
   \<and> pending_implementors (window (state_after (script
        (initial (Callable (\<lambda>(r, p, h). (None, r, Foreign True, h))) Absent (0::nat)))))
       = Foreign True"
proof -
  let ?n = "initial NonCallable Absent () :: (unit, unit) state"
  let ?k = "initial ClassConstructor Absent () :: (unit, unit) state"
  let ?f = "(\<lambda>(r, p, h). (None, r, Foreign True, h))
    :: (nat, bool) reach \<Rightarrow> error option \<times> (nat, bool) reach"
  let ?w = "initial (Callable ?f) Absent (0::nat)"
  have n: "script ?n = Inl (TypeError, build ?n)"
    by (simp add: script_NonCallable window_initial)
  then have "outcome ?n = Aborted TypeError (build ?n)" by (simp add: outcome_def)
  with script_steps [of ?n]
  have a: "rtranclp step (Running Line1 ?n) (Aborted TypeError (build ?n))"
    by simp
  have k: "script ?k = Inl (TypeError, build ?k)"
    by (simp add: script_ClassConstructor window_initial)
  have c: "register_implementors (window ?w) = Callable ?f"
    by (simp add: window_initial)
  have f: "?f (implementors (build ?w), pending_implementors (window ?w), host (window ?w))
      = (None, implementors (build ?w), Foreign True, 0)"
    by (simp add: window_initial)
  note w = state_after_Callable [OF c f]
  from n a k show ?thesis
    by (simp add: w trace_build window_build trace_initial window_initial)
qed

text \<open>
  Claim C2. With no consumer registered, the script leaves in the pending slot a registry
  with exactly the keys \<^verbatim>\<open>sentry_contrib_native\<close>, of 5 records, and
  \<^verbatim>\<open>sentry_contrib_native_sys\<close>, of 8 records.
\<close>

theorem pending_slot_two_modules:
  assumes "register_implementors (window s) = Falsy"
  shows "\<exists>s' reg. script s = Inr s' \<and> pending_implementors (window s') = Registry reg
     \<and> map (\<lambda>(k, rs). (k, length rs)) reg =
         [(''sentry_contrib_native'', 5), (''sentry_contrib_native_sys'', 8)]"
  using assms
  by (simp add: script_Falsy implementors_build length_native_records length_sys_records)

theorem pending_slot_two_modules_witness:
  "register_implementors (window (initial Falsy Absent () :: (unit, unit) state)) = Falsy
   \<and> (\<exists>s' reg. script (initial Falsy Absent () :: (unit, unit) state) = Inr s'
        \<and> pending_implementors (window s') = Registry reg
        \<and> map (\<lambda>(k, rs). (k, length rs)) reg =
            [(''sentry_contrib_native'', 5), (''sentry_contrib_native_sys'', 8)])"
proof -
  have h: "register_implementors (window (initial Falsy Absent () :: (unit, unit) state)) = Falsy"
    by (simp add: window_initial)
  from h pending_slot_two_modules [OF h] show ?thesis by (rule conjI)
qed

text \<open>
  Claim C3. With the logging consumer registered, whatever the pending slot held before,
  the script appends the 13 records to the log, 5 and then 8, so that a log that was empty
  has exactly 13 entries, and the pending slot keeps its value.
\<close>

theorem consumer_path_frame:
  assumes "register_implementors (window s) = Callable log_consumer"
  shows "\<exists>s'. script s = Inr s'
     \<and> host (window s') = host (window s) @ native_records @ sys_records
     \<and> length (host (window s')) = length (host (window s)) + 13
     \<and> (host (window s) = [] \<longrightarrow> length (host (window s')) = 13)
     \<and> pending_implementors (window s') = pending_implementors (window s)"
  using assms
  by (simp add: script_def publish_def window_build trace_build implementors_build
      log_consumer_def length_native_records length_sys_records)

theorem consumer_path_frame_witness:
  "register_implementors
       (window (initial (Callable log_consumer) Absent [] :: (implementor list, unit) state))
     = Callable log_consumer
   \<and> host (window (initial (Callable log_consumer) Absent [] :: (implementor list, unit) state))
       = []
   \<and> (\<exists>s'. script (initial (Callable log_consumer) Absent [] :: (implementor list, unit) state)
            = Inr s'
        \<and> length (host (window s')) = 13
        \<and> pending_implementors (window s') = Absent)"
proof -
  let ?s = "initial (Callable log_consumer) Absent [] :: (implementor list, unit) state"
  have h: "register_implementors (window ?s) = Callable log_consumer"
    by (simp add: window_initial)
  have e: "host (window ?s) = []" "pending_implementors (window ?s) = Absent"
    by (simp_all add: window_initial)
  from consumer_path_frame [OF h] e h show ?thesis by auto
qed

section \<open>The lifecycle\<close>




text \<open>
  Claim C10. From one and the same state, every run of the script ends, and any two runs
  end in the same configuration: the same calls of the consumer with the same arguments,
  and the same value in the pending slot. Each single statement has one result only.
\<close>

theorem script_deterministic:
  fixes s :: "('h, 'p) state"
  shows "(\<exists>c. rtranclp step (Running Line1 s) c \<and> finished c)
   \<and> (\<forall>c1 c2. rtranclp step (Running Line1 s) c1 \<and> finished c1
              \<and> rtranclp step (Running Line1 s) c2 \<and> finished c2 \<longrightarrow>
          c1 = c2 \<and> trace (state_of c1) = trace (state_of c2)
          \<and> pending_implementors (window (state_of c1))
              = pending_implementors (window (state_of c2)))
   \<and> (\<forall>(c :: ('h, 'p) config) c1 c2. step c c1 \<and> step c c2 \<longrightarrow> c1 = c2)"
proof (intro conjI allI impI)
  show "\<exists>c. rtranclp step (Running Line1 s) c \<and> finished c"
    using script_steps finished_outcome by blast
next
  fix c1 c2
  assume "rtranclp step (Running Line1 s) c1 \<and> finished c1
        \<and> rtranclp step (Running Line1 s) c2 \<and> finished c2"
  then show e: "c1 = c2" using finished_unique by blast
  then show "trace (state_of c1) = trace (state_of c2)" by simp
  from e show "pending_implementors (window (state_of c1))
      = pending_implementors (window (state_of c2))" by simp
next
  fix c c1 c2 :: "('h, 'p) config"
  assume "step c c1 \<and> step c c2"
  then show "c1 = c2" using step_deterministic by blast
qed

text \<open>On a page with no consumer, the end the theorem promises is the result of \<open>script\<close>.\<close>

theorem script_deterministic_witness:
  "rtranclp step (Running Line1 (initial Falsy (Foreign ()) () :: (unit, unit) state))
        (outcome (initial Falsy (Foreign ()) ()))
   \<and> finished (outcome (initial Falsy (Foreign ()) () :: (unit, unit) state))
   \<and> (\<exists>c. rtranclp step (Running Line1 (initial Falsy (Foreign ()) () :: (unit, unit) state)) c
          \<and> finished c \<and> c = outcome (initial Falsy (Foreign ()) ()))"
proof -
  let ?s = "initial Falsy (Foreign ()) () :: (unit, unit) state"
  have r: "rtranclp step (Running Line1 ?s) (outcome ?s)" by (rule script_steps)
  have f: "finished (outcome ?s)" by (rule finished_outcome)
  from script_deterministic [of ?s] obtain c
    where c: "rtranclp step (Running Line1 ?s) c" "finished c" by blast
  with script_deterministic [of ?s] r f have "c = outcome ?s" by blast
  with c r f show ?thesis by blast
qed

end
